theory Spec2Isabelle
  imports Main
begin

section \<open>WHM Alert: the polling loop and the alert dispatch of \<open>src/index.ts\<close>\<close>

subsection \<open>Data\<close>

text \<open>
  The interface \<open>AlertConfig\<close>. The optional webhook fields are \<open>string | undefined\<close>,
  here \<open>string option\<close>. The field \<open>checkInterval\<close> (the period handed to
  \<open>setInterval\<close>) only decides when the timer fires; the firings are an input of the
  model below (\<open>ticks\<close>), so the field is left out.
\<close>

record AlertConfig =
  platform :: string
  token :: string
  owner :: string
  repo :: string
  channels :: "string list"
  webhookUrl :: "string option"
  slackWebhook :: "string option"
  watch :: bool

text \<open>
  The object \<open>options\<close> that commander hands to the action: the four required options,
  the two optional URLs, the interval text (default \<open>60\<close>) and the \<open>--watch\<close> flag.
\<close>

record options =
  opt_platform :: string
  opt_token :: string
  opt_owner :: string
  opt_repo :: string
  opt_webhook :: "string option"
  opt_slack :: "string option"
  opt_interval :: string
  opt_watch :: bool

text \<open>
  One element of the platform's run list (\<open>latestRun\<close>, typed \<open>any\<close> in the source).
  \<open>run_id\<close> is \<open>String(latestRun.id)\<close>; \<open>conclusion\<close> and \<open>status\<close> are the two
  fields the code compares with string literals by \<open>===\<close>, \<open>None\<close> standing for
  \<open>null\<close>, \<open>undefined\<close> and every value that is not a string.
\<close>

record run =
  run_id :: string
  conclusion :: "string option"
  status :: "string option"

datatype alert_type = failure | recovery

datatype error = Error string

record field =
  title :: string
  fvalue :: string
  short :: "bool option"

record attachment =
  color :: string
  afields :: "field list"

record slack_payload =
  msg_text :: string
  attachments :: "attachment list"

record webhook_payload =
  event :: string
  repository :: string
  timestamp :: string
  wrun :: run

datatype payload = SlackBody slack_payload | WebhookBody webhook_payload

text \<open>
  What the program does to the outside world, in order: HTTP requests (URL, headers,
  query parameters; URL and body for a POST) and console lines. \<open>ConsoleErrorObj\<close> is
  \<open>console.error\<close> called with a text and a caught error object, which it prints after
  the text. The colours that \<open>chalk\<close> adds to console text are not modelled.
\<close>

datatype effect =
    HttpGet string "(string \<times> string) list" "(string \<times> string) list"
  | HttpPost string payload
  | ConsoleLog string
  | ConsoleError string
  | ConsoleErrorObj string error

text \<open>
  What becomes of the promise of one \<open>axios.post\<close>: it resolves, it rejects with an
  error, or it stays pending for ever. The code sets no timeout, so an endpoint that
  accepts the connection and never answers leaves the \<open>await\<close> suspended.
\<close>

datatype outcome = Resolved | Rejected error | Pending

text \<open>
  What the outside world answers during one run of \<open>checkPipeline\<close>: the reply to the
  GET (an exception thrown inside the fetch, or the list of runs in the response), the
  outcome of the POST to each sink, should it be sent, and the text
  \<open>new Date().toISOString()\<close> returns. One run of \<open>checkPipeline\<close> sends at most one
  GET, at most one POST per sink, and reads the clock at most once. The GET is taken to
  settle; a GET that is never answered is not modelled.
\<close>

datatype reply = Failed error | Replied "run list"

record tick =
  fetch_reply :: reply
  slack_reply :: outcome
  webhook_reply :: outcome
  now :: string

text \<open>
  A computation that settles: its result (\<open>Inl\<close> the exception thrown) and the effects
  it had until then.
\<close>

type_synonym 'a io = "(error + 'a) \<times> effect list"

text \<open>
  A computation that may also never settle: \<open>None\<close> when an \<open>await\<close> in it stays
  suspended, with the effects it had before that.
\<close>

type_synonym 'a aio = "(error + 'a) option \<times> effect list"

subsection \<open>JavaScript primitives\<close>

text \<open>Truthiness of a \<open>string | null | undefined\<close>: \<open>null\<close>, \<open>undefined\<close> and \<open>""\<close> are falsy.\<close>

definition truthy :: "string option \<Rightarrow> bool" where
  "truthy v = (case v of None \<Rightarrow> False | Some s \<Rightarrow> s \<noteq> [])"

text \<open>\<open>xs?.[0]\<close> on an array: the first element, \<open>undefined\<close> when there is none.\<close>

definition first :: "'a list \<Rightarrow> 'a option" where
  "first xs = (case xs of [] \<Rightarrow> None | x # _ \<Rightarrow> Some x)"

text \<open>
  \<open>encodeURIComponent\<close> on a string of UTF-8 bytes: letters, digits and
  \<open>- _ . ! ~ * ' ( )\<close> stay, every other byte becomes \<open>%XX\<close>.
\<close>

definition unreserved :: "char \<Rightarrow> bool" where
  "unreserved c =
     (c \<in> set (''ABCDEFGHIJKLMNOPQRSTUVWXYZabcdefghijklmnopqrstuvwxyz0123456789-_.!~*()''
               @ [CHR 0x27]))"

definition hex_digit :: "nat \<Rightarrow> char" where
  "hex_digit n = ''0123456789ABCDEF'' ! (n mod 16)"

definition encodeURIComponent :: "string \<Rightarrow> string" where
  "encodeURIComponent s =
     concat (map (\<lambda>c. if unreserved c then [c]
                       else [CHR ''%'', hex_digit (of_char c div 16), hex_digit (of_char c)]) s)"

text \<open>
  Sequencing and \<open>try\<close>/\<open>catch\<close>: what follows a suspended \<open>await\<close> never runs, and
  neither does the handler. Then the calls that have effects.
\<close>

definition skip :: "unit aio" where
  "skip = (Some (Inr ()), [])"

definition seq :: "unit aio \<Rightarrow> unit aio \<Rightarrow> unit aio" where
  "seq a b =
     (case a of
        (None, t) \<Rightarrow> (None, t)
      | (Some (Inl e), t) \<Rightarrow> (Some (Inl e), t)
      | (Some (Inr _), t) \<Rightarrow> (fst b, t @ snd b))"

definition try_catch :: "unit aio \<Rightarrow> (error \<Rightarrow> unit aio) \<Rightarrow> unit aio" where
  "try_catch a h =
     (case a of
        (None, t) \<Rightarrow> (None, t)
      | (Some (Inl e), t) \<Rightarrow> (fst (h e), t @ snd (h e))
      | (Some (Inr u), t) \<Rightarrow> (Some (Inr u), t))"

definition axios_post :: "string \<Rightarrow> payload \<Rightarrow> outcome \<Rightarrow> unit aio" where
  "axios_post url body out =
     (case out of
        Resolved \<Rightarrow> (Some (Inr ()), [HttpPost url body])
      | Rejected e \<Rightarrow> (Some (Inl e), [HttpPost url body])
      | Pending \<Rightarrow> (None, [HttpPost url body]))"

definition console_log :: "string \<Rightarrow> unit aio" where
  "console_log s = (Some (Inr ()), [ConsoleLog s])"

definition console_error_obj :: "string \<Rightarrow> error \<Rightarrow> unit aio" where
  "console_error_obj s e = (Some (Inr ()), [ConsoleErrorObj s e])"

definition error_message :: "error \<Rightarrow> string" where
  "error_message e = (case e of Error m \<Rightarrow> m)"

subsection \<open>\<open>sendAlert\<close>\<close>

definition type_name :: "alert_type \<Rightarrow> string" where
  "type_name ty = (case ty of failure \<Rightarrow> ''failure'' | recovery \<Rightarrow> ''recovery'')"

definition repoName :: "AlertConfig \<Rightarrow> string" where
  "repoName config = owner config @ ''/'' @ repo config"

text \<open>The two emoji of the message texts, as UTF-8 bytes (U+1F6A8 and U+2705).\<close>

definition siren :: string where
  "siren = [CHR 0xF0, CHR 0x9F, CHR 0x9A, CHR 0xA8]"

definition check_mark :: string where
  "check_mark = [CHR 0xE2, CHR 0x9C, CHR 0x85]"

definition message :: "AlertConfig \<Rightarrow> alert_type \<Rightarrow> string" where
  "message config ty =
     (if ty = failure then siren @ '' Pipeline Failed: '' @ repoName config
      else check_mark @ '' Pipeline Recovered: '' @ repoName config)"

definition details :: "alert_type \<Rightarrow> string" where
  "details ty =
     (if ty = failure then ''The pipeline has failed. Check the logs for more details.''
      else ''The pipeline is now passing again.'')"

text \<open>The constant \<open>payload\<close> of \<open>sendAlert\<close>, posted to Slack.\<close>

definition slackBody :: "AlertConfig \<Rightarrow> alert_type \<Rightarrow> slack_payload" where
  "slackBody config ty =
     \<lparr> msg_text = message config ty,
       attachments =
         [\<lparr> color = (if ty = failure then ''#ff0000'' else ''#00ff00''),
            afields =
              [\<lparr> title = ''Repository'', fvalue = repoName config, short = Some True \<rparr>,
               \<lparr> title = ''Status'', fvalue = (if ty = failure then ''FAILED'' else ''PASSED''),
                 short = Some True \<rparr>,
               \<lparr> title = ''Details'', fvalue = details ty, short = None \<rparr>] \<rparr>] \<rparr>"

text \<open>The object literal posted to the generic webhook.\<close>

definition webhookBody :: "AlertConfig \<Rightarrow> run \<Rightarrow> alert_type \<Rightarrow> string \<Rightarrow> webhook_payload" where
  "webhookBody config r ty stamp =
     \<lparr> event = type_name ty, repository = repoName config, timestamp = stamp, wrun = r \<rparr>"

text \<open>
  Each sink has its own \<open>try\<close>/\<open>catch\<close> behind its own \<open>if\<close>, Slack first; the POST to
  the generic webhook is issued only after the \<open>await\<close> of the Slack POST has settled.
\<close>

definition sendAlert :: "AlertConfig \<Rightarrow> run \<Rightarrow> alert_type \<Rightarrow> tick \<Rightarrow> unit aio" where
  "sendAlert config r ty env =
     seq
       (case slackWebhook config of
          None \<Rightarrow> skip
        | Some url \<Rightarrow>
            if url = [] then skip
            else try_catch
                   (seq (axios_post url (SlackBody (slackBody config ty)) (slack_reply env))
                        (console_log (''Alert sent to Slack: '' @ type_name ty)))
                   (\<lambda>e. console_error_obj ''Failed to send Slack alert:'' e))
       (case webhookUrl config of
          None \<Rightarrow> skip
        | Some url \<Rightarrow>
            if url = [] then skip
            else try_catch
                   (seq (axios_post url (WebhookBody (webhookBody config r ty (now env)))
                           (webhook_reply env))
                        (console_log (''Alert sent to webhook: '' @ type_name ty)))
                   (\<lambda>e. console_error_obj ''Failed to send webhook alert:'' e))"

subsection \<open>\<open>checkPipeline\<close>\<close>

text \<open>
  The fetch at the head of \<open>checkPipeline\<close>: one GET for GitHub or GitLab, none for any
  other platform (\<open>latestRun\<close> stays \<open>null\<close>). An exception anywhere in it is \<open>Failed\<close>.
\<close>

definition github_request :: "AlertConfig \<Rightarrow> effect" where
  "github_request config =
     HttpGet (''https://api.github.com/repos/'' @ owner config @ ''/'' @ repo config
                @ ''/actions/runs'')
       [(''Authorization'', ''Bearer '' @ token config),
        (''Accept'', ''application/vnd.github+json'')]
       [(''per_page'', ''1'')]"

definition gitlab_request :: "AlertConfig \<Rightarrow> effect" where
  "gitlab_request config =
     HttpGet (''https://gitlab.com/api/v4/projects/''
                @ encodeURIComponent (owner config @ ''/'' @ repo config) @ ''/pipelines'')
       [(''PRIVATE-TOKEN'', token config)]
       [(''per_page'', ''1'')]"

definition fetch :: "AlertConfig \<Rightarrow> reply \<Rightarrow> (run option) io" where
  "fetch config rep =
     (if platform config = ''github'' then
        (case rep of Failed e \<Rightarrow> (Inl e, [github_request config])
                   | Replied runs \<Rightarrow> (Inr (first runs), [github_request config]))
      else if platform config = ''gitlab'' then
        (case rep of Failed e \<Rightarrow> (Inl e, [gitlab_request config])
                   | Replied runs \<Rightarrow> (Inr (first runs), [gitlab_request config]))
      else (Inr None, []))"

definition run_status :: "AlertConfig \<Rightarrow> run \<Rightarrow> string option" where
  "run_status config latestRun =
     (if platform config = ''github'' then conclusion latestRun else status latestRun)"

text \<open>The three glyphs of the first-run line, as UTF-8 bytes (U+2713, U+2717, U+27F3).\<close>

definition statusText :: "string option \<Rightarrow> string" where
  "statusText st =
     (if st = Some ''success'' then [CHR 0xE2, CHR 0x9C, CHR 0x93] @ '' PASS''
      else if st = Some ''failure'' then [CHR 0xE2, CHR 0x9C, CHR 0x97] @ '' FAIL''
      else [CHR 0xE2, CHR 0x9F, CHR 0xB3] @ '' RUNNING'')"

text \<open>
  The body of the \<open>try\<close> block. The state is the closure variable \<open>lastRunId\<close>; an
  assignment made before an exception would survive it, so the state is returned on
  every branch. When \<open>await sendAlert\<close> stays suspended the rest of the body never runs.
\<close>

definition checkPipeline_try ::
  "AlertConfig \<Rightarrow> tick \<Rightarrow> string option
     \<Rightarrow> (error + unit) option \<times> string option \<times> effect list" where
  "checkPipeline_try config env lastRunId =
     (case fetch config (fetch_reply env) of
        (Inl e, t) \<Rightarrow> (Some (Inl e), lastRunId, t)
      | (Inr None, t) \<Rightarrow> (Some (Inr ()), lastRunId, t)
      | (Inr (Some latestRun), t) \<Rightarrow>
          (let runId = run_id latestRun;
               st = run_status config latestRun;
               alert =
                 (if truthy lastRunId \<and> Some runId \<noteq> lastRunId then
                    (if st = Some ''failure'' \<or> st = Some ''failed'' then
                       sendAlert config latestRun failure env
                     else if st = Some ''success'' \<or> st = Some ''success'' then
                       sendAlert config latestRun recovery env
                     else skip)
                  else skip)
           in case alert of
                (None, t') \<Rightarrow> (None, lastRunId, t @ t')
              | (Some (Inl e), t') \<Rightarrow> (Some (Inl e), lastRunId, t @ t')
              | (Some (Inr _), t') \<Rightarrow>
                  (if \<not> truthy lastRunId then
                     (Some (Inr ()), Some runId,
                      t @ t' @ [ConsoleLog (now env @ '' '' @ statusText st)])
                   else (Some (Inr ()), lastRunId, t @ t'))))"

text \<open>
  \<open>checkPipeline\<close>: the \<open>try\<close> block with its \<open>catch\<close>, which logs and returns. The
  result is \<open>lastRunId\<close> and the effects of this run; a run left suspended by a pending
  POST has the effects up to that POST and no later ones.
\<close>

definition checkPipeline ::
  "AlertConfig \<Rightarrow> tick \<Rightarrow> string option \<Rightarrow> string option \<times> effect list" where
  "checkPipeline config env lastRunId =
     (case checkPipeline_try config env lastRunId of
        (None, s, t) \<Rightarrow> (s, t)
      | (Some (Inl e), s, t) \<Rightarrow>
          (s, t @ [ConsoleError (''Error checking pipeline: '' @ error_message e)])
      | (Some (Inr _), s, t) \<Rightarrow> (s, t))"

subsection \<open>The poll loop and the action\<close>

text \<open>
  The timer: \<open>checkPipeline\<close> once per firing. The list holds the world's answers at
  the firings that happen while the process lives. \<open>setInterval\<close> does not wait for a
  run, so a run left suspended does not stop the later firings. A run that settles is
  taken to do so before the next firing; runs whose effects interleave because a
  request outlasts the interval are not modelled.
\<close>

fun polls :: "AlertConfig \<Rightarrow> tick list \<Rightarrow> string option \<Rightarrow> string option \<times> effect list" where
  "polls config [] lastRunId = (lastRunId, [])"
| "polls config (env # envs) lastRunId =
     (case checkPipeline config env lastRunId of
        (s, t) \<Rightarrow> (case polls config envs s of (s', t') \<Rightarrow> (s', t @ t')))"

text \<open>
  How the action leaves the process: exited with a code, or kept alive by the timer
  with the current \<open>lastRunId\<close>.
\<close>

datatype process = Exited nat | Watching "string option"

definition mkConfig :: "options \<Rightarrow> AlertConfig" where
  "mkConfig opts =
     \<lparr> platform = opt_platform opts, token = opt_token opts, owner = opt_owner opts,
       repo = opt_repo opts, channels = [], webhookUrl = opt_webhook opts,
       slackWebhook = opt_slack opts, watch = opt_watch opts \<rparr>"

definition bell :: string where
  "bell = [CHR 0xF0, CHR 0x9F, CHR 0x94, CHR 0x94]"

text \<open>
  The action of the command: \<open>process.exit(1)\<close> when no webhook is given, else the
  banner, the initial check and, with \<open>--watch\<close>, the timer; without it nothing is
  pending after the initial check and the process ends with code 0. \<open>env0\<close> answers the
  initial check, \<open>ticks\<close> the timer's firings. The initial check starts from a null
  \<open>lastRunId\<close>, so it sends no POST and its \<open>await\<close> settles with the GET.
\<close>

definition action :: "options \<Rightarrow> tick \<Rightarrow> tick list \<Rightarrow> process \<times> effect list" where
  "action opts env0 ticks =
     (let config = mkConfig opts in
      if \<not> truthy (webhookUrl config) \<and> \<not> truthy (slackWebhook config) then
        (Exited 1,
         [ConsoleError ''Error: Please specify at least one webhook URL (--webhook or --slack)''])
      else
        (let banner =
               [ConsoleLog (bell @ '' WHM Alert - CI/CD Pipeline Monitor''),
                ConsoleLog (''Monitoring: '' @ owner config @ ''/'' @ repo config),
                ConsoleLog (''Interval: '' @ opt_interval opts @ ''s'' @ [CHR 0x0A])]
         in case checkPipeline config env0 None of
              (s, t) \<Rightarrow>
                (if watch config then
                   (case polls config ticks s of
                      (s', t') \<Rightarrow>
                        (Watching s',
                         banner @ t
                           @ [ConsoleLog (''Watching for changes... (Ctrl+C to stop)'' @ [CHR 0x0A])]
                           @ t'))
                 else (Exited 0, banner @ t))))"

subsection \<open>Observations on a trace\<close>

text \<open>The delivery attempts in a trace: the POSTs, in order.\<close>

fun posts :: "effect list \<Rightarrow> (string \<times> payload) list" where
  "posts [] = []"
| "posts (HttpPost url body # t) = (url, body) # posts t"
| "posts (_ # t) = posts t"

text \<open>The network calls in a trace: GETs and POSTs.\<close>

fun is_network :: "effect \<Rightarrow> bool" where
  "is_network (HttpGet _ _ _) = True"
| "is_network (HttpPost _ _) = True"
| "is_network _ = False"

subsection \<open>Sample inputs\<close>

text \<open>
  A GitHub repository watched with both sinks, the same with Slack alone, a run with a
  given id and conclusion, a poll that sees one run while Slack refuses the connection
  and the generic webhook accepts, the same poll with a Slack endpoint that never
  answers, a poll whose fetch is rejected, and a command line with no webhook.
\<close>

definition sample_config :: AlertConfig where
  "sample_config =
     \<lparr> platform = ''github'', token = ''t0k'', owner = ''acme'', repo = ''api'', channels = [],
       webhookUrl = Some ''https://hooks.example/ci'',
       slackWebhook = Some ''https://hooks.slack.example/T1'', watch = True \<rparr>"

definition slack_only :: AlertConfig where
  "slack_only = sample_config \<lparr> webhookUrl := None \<rparr>"

definition run_of :: "string \<Rightarrow> string \<Rightarrow> run" where
  "run_of i c = \<lparr> run_id = i, conclusion = Some c, status = Some ''completed'' \<rparr>"

definition tick_of :: "run \<Rightarrow> tick" where
  "tick_of r =
     \<lparr> fetch_reply = Replied [r], slack_reply = Rejected (Error ''connect ECONNREFUSED''),
       webhook_reply = Resolved, now = ''2024-05-01T10:00:00.000Z'' \<rparr>"

definition stalled_tick :: "run \<Rightarrow> tick" where
  "stalled_tick r = (tick_of r) \<lparr> slack_reply := Pending \<rparr>"

definition failed_tick :: tick where
  "failed_tick =
     \<lparr> fetch_reply = Failed (Error ''Request failed with status code 401''),
       slack_reply = Resolved, webhook_reply = Resolved, now = ''2024-05-01T10:01:00.000Z'' \<rparr>"

definition no_sinks :: options where
  "no_sinks =
     \<lparr> opt_platform = ''github'', opt_token = ''t0k'', opt_owner = ''acme'', opt_repo = ''api'',
       opt_webhook = None, opt_slack = None, opt_interval = ''60'', opt_watch = True \<rparr>"

section \<open>Properties\<close>

subsection \<open>Auxiliary facts\<close>

text \<open>
  \<open>sendAlert\<close> never throws: it returns, unless the POST to a configured sink stays
  pending.
\<close>

lemma sendAlert_result:
  "fst (sendAlert config r ty env) =
     (if (truthy (slackWebhook config) \<and> slack_reply env = Pending)
         \<or> (truthy (webhookUrl config) \<and> webhook_reply env = Pending)
      then None else Some (Inr ()))"
  by (simp add: sendAlert_def seq_def try_catch_def axios_post_def console_log_def
      console_error_obj_def skip_def truthy_def split: option.splits outcome.splits)

lemma sendAlert_cases:
  obtains (suspended) t where "sendAlert config r ty env = (None, t)"
  | (returned) t where "sendAlert config r ty env = (Some (Inr ()), t)"
  using sendAlert_result [of config r ty env]
  by (cases "sendAlert config r ty env") (auto split: if_splits)

lemma posts_append: "posts (a @ b) = posts a @ posts b"
  by (induction a rule: posts.induct) simp_all

lemma posts_fetch: "posts (snd (fetch config rep)) = []"
  by (simp add: fetch_def github_request_def gitlab_request_def split: reply.splits)

lemma posts_sendAlert:
  "posts (snd (sendAlert config r ty env)) =
     (if truthy (slackWebhook config)
      then [(the (slackWebhook config), SlackBody (slackBody config ty))] else [])
     @ (if truthy (webhookUrl config)
           \<and> \<not> (truthy (slackWebhook config) \<and> slack_reply env = Pending)
        then [(the (webhookUrl config), WebhookBody (webhookBody config r ty (now env)))]
        else [])"
  by (simp add: sendAlert_def seq_def try_catch_def axios_post_def console_log_def
      console_error_obj_def skip_def truthy_def split: option.splits outcome.splits)

text \<open>The three ways the fetch can end, and what \<open>checkPipeline\<close> does in each.\<close>

lemma fetch_cases:
  obtains (failed) e t where "fetch config rep = (Inl e, t)"
  | (nothing) t where "fetch config rep = (Inr None, t)"
  | (observed) r t where "fetch config rep = (Inr (Some r), t)"
  by (cases "fetch config rep"; cases "fst (fetch config rep)";
      cases "projr (fst (fetch config rep))"; fastforce)

lemma checkPipeline_failed:
  assumes "fetch config (fetch_reply env) = (Inl e, t)"
  shows "checkPipeline config env s =
           (s, t @ [ConsoleError (''Error checking pipeline: '' @ error_message e)])"
  using assms by (simp add: checkPipeline_def checkPipeline_try_def)

lemma checkPipeline_nothing:
  assumes "fetch config (fetch_reply env) = (Inr None, t)"
  shows "checkPipeline config env s = (s, t)"
  using assms by (simp add: checkPipeline_def checkPipeline_try_def)

lemma checkPipeline_observed:
  assumes "fetch config (fetch_reply env) = (Inr (Some r), t)"
  shows "checkPipeline config env s =
           (if truthy s then
              (s, t @ (if Some (run_id r) \<noteq> s then
                         (if run_status config r = Some ''failure''
                             \<or> run_status config r = Some ''failed''
                          then snd (sendAlert config r failure env)
                          else if run_status config r = Some ''success''
                          then snd (sendAlert config r recovery env)
                          else [])
                       else []))
            else (Some (run_id r),
                  t @ [ConsoleLog (now env @ '' '' @ statusText (run_status config r))]))"
proof (cases rule: sendAlert_cases [of config r failure env])
  case f: (suspended tf)
  show ?thesis
  proof (cases rule: sendAlert_cases [of config r recovery env])
    case (suspended tr)
    with assms f show ?thesis
      by (simp add: checkPipeline_def checkPipeline_try_def skip_def Let_def)
  next
    case (returned tr)
    with assms f show ?thesis
      by (simp add: checkPipeline_def checkPipeline_try_def skip_def Let_def)
  qed
next
  case f: (returned tf)
  show ?thesis
  proof (cases rule: sendAlert_cases [of config r recovery env])
    case (suspended tr)
    with assms f show ?thesis
      by (simp add: checkPipeline_def checkPipeline_try_def skip_def Let_def)
  next
    case (returned tr)
    with assms f show ?thesis
      by (simp add: checkPipeline_def checkPipeline_try_def skip_def Let_def)
  qed
qed

lemma checkPipeline_state: "truthy s \<Longrightarrow> fst (checkPipeline config env s) = s"
  by (cases rule: fetch_cases [of config "fetch_reply env"])
     (simp_all add: checkPipeline_observed checkPipeline_nothing checkPipeline_failed)

lemma polls_Cons:
  "polls config (env # envs) s =
     (fst (polls config envs (fst (checkPipeline config env s))),
      snd (checkPipeline config env s)
        @ snd (polls config envs (fst (checkPipeline config env s))))"
  by (simp split: prod.splits)

lemma polls_state: "truthy s \<Longrightarrow> fst (polls config envs s) = s"
proof (induction envs)
  case Nil
  then show ?case by simp
next
  case (Cons env envs)
  then show ?case
    by (simp only: polls_Cons fst_conv checkPipeline_state)
qed

lemma fetch_sample:
  "fetch sample_config (fetch_reply (tick_of r)) = (Inr (Some r), [github_request sample_config])"
  by (simp add: fetch_def sample_config_def tick_of_def first_def)

lemma fetch_slack_only:
  "fetch slack_only (fetch_reply (tick_of r)) = (Inr (Some r), [github_request slack_only])"
  by (simp add: fetch_def slack_only_def sample_config_def tick_of_def first_def)

subsection \<open>The detector\<close>

text \<open>
  C1. A poll that observes a run whose id differs from a non-null \<open>lastRunId\<close> should
  leave \<open>lastRunId\<close> equal to the new id. The code does not: with \<open>lastRunId = "100"\<close>, a
  poll that observes run \<open>101\<close> (concluded in failure) leaves \<open>lastRunId\<close> at \<open>"100"\<close>.
\<close>

theorem lastRunId_not_advanced_on_new_run:
  "fst (checkPipeline slack_only (tick_of (run_of ''101'' ''failure'')) (Some ''100''))
     = Some ''100''"
  by (simp add: checkPipeline_state truthy_def)

text \<open>
  C2. A baseline run \<open>100\<close> followed by repeated observations of one failed run \<open>101\<close>
  should give one failure notification in total. The code sends one at every poll: two
  observations of run \<open>101\<close> give two POSTs of the failure payload to the one configured
  sink.
\<close>

theorem repeated_failure_alerts_again:
  "posts (snd (polls slack_only
                 [tick_of (run_of ''100'' ''success''), tick_of (run_of ''101'' ''failure''),
                  tick_of (run_of ''101'' ''failure'')] None))
     = [(''https://hooks.slack.example/T1'', SlackBody (slackBody slack_only failure)),
        (''https://hooks.slack.example/T1'', SlackBody (slackBody slack_only failure))]"
proof -
  have "posts (snd (polls slack_only
                 [tick_of (run_of ''100'' ''success''), tick_of (run_of ''101'' ''failure''),
                  tick_of (run_of ''101'' ''failure'')] None))
     = [(the (slackWebhook slack_only), SlackBody (slackBody slack_only failure)),
        (the (slackWebhook slack_only), SlackBody (slackBody slack_only failure))]"
    by (simp add: polls_Cons checkPipeline_observed [OF fetch_slack_only] truthy_def
        posts_append posts_sendAlert run_of_def run_status_def github_request_def
        del: polls.simps)
       (simp add: slack_only_def sample_config_def)
  then show ?thesis
    by (simp add: slack_only_def sample_config_def)
qed

text \<open>
  C3. The first run ever observed (\<open>lastRunId\<close> is null), whatever its status, causes no
  delivery attempt, and its id becomes \<open>lastRunId\<close>.
\<close>

theorem first_observation_no_alert:
  assumes "fetch config (fetch_reply env) = (Inr (Some r), t)"
  shows "posts (snd (checkPipeline config env None)) = []
         \<and> fst (checkPipeline config env None) = Some (run_id r)"
  using assms posts_fetch [of config "fetch_reply env"]
  by (simp add: checkPipeline_observed [OF assms] truthy_def posts_append)

theorem first_observation_no_alert_witness:
  "fetch sample_config (fetch_reply (tick_of (run_of ''100'' ''failure'')))
     = (Inr (Some (run_of ''100'' ''failure'')), [github_request sample_config])
   \<and> posts (snd (checkPipeline sample_config (tick_of (run_of ''100'' ''failure'')) None)) = []
   \<and> fst (checkPipeline sample_config (tick_of (run_of ''100'' ''failure'')) None)
       = Some ''100''"
proof -
  have h: "fetch sample_config (fetch_reply (tick_of (run_of ''100'' ''failure'')))
             = (Inr (Some (run_of ''100'' ''failure'')), [github_request sample_config])"
    by (rule fetch_sample)
  show ?thesis
    using h first_observation_no_alert [OF h] by (simp add: run_of_def)
qed

text \<open>
  C4. A poll that observes the run whose id is already \<open>lastRunId\<close> causes no delivery
  attempt and leaves \<open>lastRunId\<close> as it is, whatever the run's status is now.
\<close>

theorem same_id_no_alert:
  assumes "fetch config (fetch_reply env) = (Inr (Some r), t)"
  shows "posts (snd (checkPipeline config env (Some (run_id r)))) = []
         \<and> fst (checkPipeline config env (Some (run_id r))) = Some (run_id r)"
  using assms posts_fetch [of config "fetch_reply env"]
  by (simp add: checkPipeline_observed [OF assms] truthy_def posts_append)

theorem same_id_no_alert_witness:
  "fetch sample_config (fetch_reply (tick_of (run_of ''100'' ''failure'')))
     = (Inr (Some (run_of ''100'' ''failure'')), [github_request sample_config])
   \<and> posts (snd (checkPipeline sample_config (tick_of (run_of ''100'' ''failure''))
                   (Some ''100''))) = []
   \<and> fst (checkPipeline sample_config (tick_of (run_of ''100'' ''failure'')) (Some ''100''))
       = Some ''100''"
proof -
  have h: "fetch sample_config (fetch_reply (tick_of (run_of ''100'' ''failure'')))
             = (Inr (Some (run_of ''100'' ''failure'')), [github_request sample_config])"
    by (rule fetch_sample)
  show ?thesis
    using h same_id_no_alert [OF h] by (simp add: run_of_def)
qed

text \<open>
  C5. A poll that observes a run whose id differs from \<open>lastRunId\<close>, where \<open>lastRunId\<close>
  holds an id (the code tests it by truthiness, so a non-empty string), posts according
  to the run's status alone. For \<open>failure\<close> and for \<open>failed\<close> it posts the failure bodies
  (Slack attachment \<open>#ff0000\<close>, webhook event \<open>failure\<close>), for \<open>success\<close> the recovery
  bodies (\<open>#00ff00\<close>, event \<open>recovery\<close>), each to the configured sinks, Slack first and
  the generic webhook once the Slack POST has settled; with a sink configured that is
  at least one POST. For any other status it posts nothing.
\<close>

theorem new_id_alerts_by_status:
  assumes "fetch config (fetch_reply env) = (Inr (Some r), t)"
    and "lastRunId = Some a" and "a \<noteq> []" and "run_id r \<noteq> a"
  shows "posts (snd (checkPipeline config env lastRunId)) =
           (let attempts = (\<lambda>ty.
                  (if truthy (slackWebhook config)
                   then [(the (slackWebhook config), SlackBody (slackBody config ty))]
                   else [])
                  @ (if truthy (webhookUrl config)
                        \<and> \<not> (truthy (slackWebhook config) \<and> slack_reply env = Pending)
                     then [(the (webhookUrl config),
                            WebhookBody (webhookBody config r ty (now env)))]
                     else []))
            in if run_status config r = Some ''failure'' \<or> run_status config r = Some ''failed''
               then attempts failure
               else if run_status config r = Some ''success'' then attempts recovery
               else [])
         \<and> map color (attachments (slackBody config failure)) = [''#ff0000'']
         \<and> event (webhookBody config r failure (now env)) = ''failure''
         \<and> map color (attachments (slackBody config recovery)) = [''#00ff00'']
         \<and> event (webhookBody config r recovery (now env)) = ''recovery''
         \<and> ((truthy (slackWebhook config) \<or> truthy (webhookUrl config))
              \<and> (run_status config r = Some ''failure'' \<or> run_status config r = Some ''failed''
                   \<or> run_status config r = Some ''success'')
              \<longrightarrow> posts (snd (checkPipeline config env lastRunId)) \<noteq> [])"
    (is "?P \<and> ?F1 \<and> ?F2 \<and> ?R1 \<and> ?R2 \<and> ?N")
proof -
  have trace: "snd (checkPipeline config env lastRunId) =
           t @ (if run_status config r = Some ''failure'' \<or> run_status config r = Some ''failed''
                then snd (sendAlert config r failure env)
                else if run_status config r = Some ''success''
                then snd (sendAlert config r recovery env)
                else [])"
    using assms(2-4) by (simp add: checkPipeline_observed [OF assms(1)] truthy_def)
  have t: "posts t = []"
    using posts_fetch [of config "fetch_reply env"] assms(1) by simp
  have p: ?P
    by (simp add: trace t posts_append posts_sendAlert Let_def)
  have f1: ?F1 and r1: ?R1
    by (simp_all add: slackBody_def)
  have f2: ?F2 and r2: ?R2
    by (simp_all add: webhookBody_def type_name_def)
  have n: ?N
    by (auto simp: p Let_def)
  show ?thesis
    by (intro conjI p f1 f2 r1 r2 n)
qed

theorem new_id_alerts_by_status_witness:
  "fetch sample_config (fetch_reply (tick_of (run_of ''101'' ''failed'')))
     = (Inr (Some (run_of ''101'' ''failed'')), [github_request sample_config])
   \<and> ''100'' \<noteq> [] \<and> run_id (run_of ''101'' ''failed'') \<noteq> ''100''
   \<and> posts (snd (checkPipeline sample_config (tick_of (run_of ''101'' ''failed''))
                   (Some ''100'')))
       = [(''https://hooks.slack.example/T1'', SlackBody (slackBody sample_config failure)),
          (''https://hooks.example/ci'',
           WebhookBody (webhookBody sample_config (run_of ''101'' ''failed'') failure
                          ''2024-05-01T10:00:00.000Z''))]
   \<and> map color (attachments (slackBody sample_config failure)) = [''#ff0000'']
   \<and> fetch sample_config (fetch_reply (tick_of (run_of ''102'' ''success'')))
       = (Inr (Some (run_of ''102'' ''success'')), [github_request sample_config])
   \<and> run_id (run_of ''102'' ''success'') \<noteq> ''100''
   \<and> posts (snd (checkPipeline sample_config (tick_of (run_of ''102'' ''success''))
                   (Some ''100'')))
       = [(''https://hooks.slack.example/T1'', SlackBody (slackBody sample_config recovery)),
          (''https://hooks.example/ci'',
           WebhookBody (webhookBody sample_config (run_of ''102'' ''success'') recovery
                          ''2024-05-01T10:00:00.000Z''))]
   \<and> map color (attachments (slackBody sample_config recovery)) = [''#00ff00'']
   \<and> posts (snd (checkPipeline sample_config (tick_of (run_of ''103'' ''cancelled''))
                   (Some ''100''))) = []"
proof -
  have f: "\<And>r. fetch sample_config (fetch_reply (tick_of r))
                  = (Inr (Some r), [github_request sample_config])"
    by (rule fetch_sample)
  have h3: "''100'' \<noteq> []" by simp
  have i1: "run_id (run_of ''101'' ''failed'') \<noteq> ''100''" by (simp add: run_of_def)
  have i2: "run_id (run_of ''102'' ''success'') \<noteq> ''100''" by (simp add: run_of_def)
  have i3: "run_id (run_of ''103'' ''cancelled'') \<noteq> ''100''" by (simp add: run_of_def)
  have st: "\<And>i c. run_status sample_config (run_of i c) = Some c"
    by (simp add: run_status_def sample_config_def run_of_def)
  have sinks: "truthy (slackWebhook sample_config)" "truthy (webhookUrl sample_config)"
    "the (slackWebhook sample_config) = ''https://hooks.slack.example/T1''"
    "the (webhookUrl sample_config) = ''https://hooks.example/ci''"
    by (simp_all add: truthy_def sample_config_def)
  have env: "\<And>r. slack_reply (tick_of r) \<noteq> Pending"
    "\<And>r. now (tick_of r) = ''2024-05-01T10:00:00.000Z''"
    by (simp_all add: tick_of_def)
  show ?thesis
    using f i1 i2 h3
      new_id_alerts_by_status [OF f refl h3 i1]
      new_id_alerts_by_status [OF f refl h3 i2]
      new_id_alerts_by_status [OF f refl h3 i3]
    by (simp add: st sinks env Let_def)
qed

subsection \<open>The dispatcher\<close>

text \<open>
  C6, as the code has it. With both sinks configured, \<open>sendAlert\<close> never throws, so no
  delivery error reaches its caller, and Slack gets exactly one delivery attempt. When
  the Slack POST settles, accepted or rejected, the generic webhook gets exactly one
  attempt too, whatever the outcome of either, and \<open>sendAlert\<close> returns once the
  webhook POST has settled. When the Slack POST never settles (no timeout is set and the
  sinks are awaited in turn), the generic webhook gets no attempt and \<open>sendAlert\<close> does
  not return.
\<close>

theorem sendAlert_sinks_isolated_when_settled:
  assumes "slackWebhook config = Some s" and "s \<noteq> []"
    and "webhookUrl config = Some w" and "w \<noteq> []"
  shows "fst (sendAlert config r ty env) \<noteq> Some (Inl e)
         \<and> (slack_reply env \<noteq> Pending \<longrightarrow>
              posts (snd (sendAlert config r ty env)) =
                [(s, SlackBody (slackBody config ty)),
                 (w, WebhookBody (webhookBody config r ty (now env)))]
              \<and> (webhook_reply env \<noteq> Pending \<longrightarrow>
                   fst (sendAlert config r ty env) = Some (Inr ())))
         \<and> (slack_reply env = Pending \<longrightarrow>
              posts (snd (sendAlert config r ty env)) = [(s, SlackBody (slackBody config ty))]
              \<and> fst (sendAlert config r ty env) = None)"
  using assms by (simp add: sendAlert_result posts_sendAlert truthy_def)

theorem sendAlert_sinks_isolated_when_settled_witness:
  "slackWebhook sample_config = Some ''https://hooks.slack.example/T1''
   \<and> webhookUrl sample_config = Some ''https://hooks.example/ci''
   \<and> slack_reply (tick_of (run_of ''101'' ''failure''))
       = Rejected (Error ''connect ECONNREFUSED'')
   \<and> webhook_reply (tick_of (run_of ''101'' ''failure'')) = Resolved
   \<and> fst (sendAlert sample_config (run_of ''101'' ''failure'') failure
            (tick_of (run_of ''101'' ''failure''))) = Some (Inr ())
   \<and> posts (snd (sendAlert sample_config (run_of ''101'' ''failure'') failure
                   (tick_of (run_of ''101'' ''failure'')))) =
       [(''https://hooks.slack.example/T1'', SlackBody (slackBody sample_config failure)),
        (''https://hooks.example/ci'',
         WebhookBody (webhookBody sample_config (run_of ''101'' ''failure'') failure
                        ''2024-05-01T10:00:00.000Z''))]"
proof -
  have h1: "slackWebhook sample_config = Some ''https://hooks.slack.example/T1''"
    by (simp add: sample_config_def)
  have h2: "''https://hooks.slack.example/T1'' \<noteq> []" by simp
  have h3: "webhookUrl sample_config = Some ''https://hooks.example/ci''"
    by (simp add: sample_config_def)
  have h4: "''https://hooks.example/ci'' \<noteq> []" by simp
  show ?thesis
    using h1 h3
      sendAlert_sinks_isolated_when_settled [OF h1 h2 h3 h4, of "run_of ''101'' ''failure''"
        failure "tick_of (run_of ''101'' ''failure'')"]
    by (simp add: tick_of_def)
qed

text \<open>
  C6 as stated fails when the Slack endpoint never answers: with both sinks configured,
  the only delivery attempt is the one to Slack, and \<open>sendAlert\<close> does not return.
\<close>

theorem stalled_slack_blocks_webhook:
  "slackWebhook sample_config = Some ''https://hooks.slack.example/T1''
   \<and> webhookUrl sample_config = Some ''https://hooks.example/ci''
   \<and> slack_reply (stalled_tick (run_of ''101'' ''failure'')) = Pending
   \<and> posts (snd (sendAlert sample_config (run_of ''101'' ''failure'') failure
                   (stalled_tick (run_of ''101'' ''failure'')))) =
       [(''https://hooks.slack.example/T1'', SlackBody (slackBody sample_config failure))]
   \<and> fst (sendAlert sample_config (run_of ''101'' ''failure'') failure
            (stalled_tick (run_of ''101'' ''failure''))) = None"
  by (simp add: sendAlert_result posts_sendAlert truthy_def sample_config_def
      stalled_tick_def tick_of_def)

text \<open>
  C9. Every body that \<open>sendAlert\<close> posts is of one of two shapes. The Slack body has one
  attachment, coloured \<open>#ff0000\<close> for a failure and \<open>#00ff00\<close> for a recovery. The generic
  webhook's body has the event \<open>failure\<close> or \<open>recovery\<close>, the repository as
  \<open>owner/repo\<close>, the clock's \<open>toISOString\<close> text as timestamp, and the run as fetched.
\<close>

theorem payload_formats:
  assumes "(url, body) \<in> set (posts (snd (sendAlert config r ty env)))"
  shows "case body of
           SlackBody p \<Rightarrow>
             map color (attachments p) = [if ty = failure then ''#ff0000'' else ''#00ff00'']
         | WebhookBody p \<Rightarrow>
             event p = (if ty = failure then ''failure'' else ''recovery'')
             \<and> repository p = owner config @ ''/'' @ repo config
             \<and> timestamp p = now env
             \<and> wrun p = r"
  using assms
  by (auto simp: posts_sendAlert slackBody_def webhookBody_def type_name_def repoName_def
      split: if_splits alert_type.splits)

theorem payload_formats_witness:
  "(''https://hooks.slack.example/T1'', SlackBody (slackBody sample_config failure))
     \<in> set (posts (snd (sendAlert sample_config (run_of ''101'' ''failure'') failure
                          (tick_of (run_of ''101'' ''failure'')))))
   \<and> map color (attachments (slackBody sample_config failure)) = [''#ff0000'']
   \<and> (''https://hooks.example/ci'',
       WebhookBody (webhookBody sample_config (run_of ''102'' ''success'') recovery
                      ''2024-05-01T10:00:00.000Z''))
     \<in> set (posts (snd (sendAlert sample_config (run_of ''102'' ''success'') recovery
                          (tick_of (run_of ''102'' ''success'')))))
   \<and> event (webhookBody sample_config (run_of ''102'' ''success'') recovery
              ''2024-05-01T10:00:00.000Z'') = ''recovery''
   \<and> repository (webhookBody sample_config (run_of ''102'' ''success'') recovery
                   ''2024-05-01T10:00:00.000Z'') = ''acme/api''
   \<and> timestamp (webhookBody sample_config (run_of ''102'' ''success'') recovery
                  ''2024-05-01T10:00:00.000Z'') = ''2024-05-01T10:00:00.000Z''
   \<and> wrun (webhookBody sample_config (run_of ''102'' ''success'') recovery
             ''2024-05-01T10:00:00.000Z'') = run_of ''102'' ''success''"
proof -
  have m1: "(''https://hooks.slack.example/T1'', SlackBody (slackBody sample_config failure))
     \<in> set (posts (snd (sendAlert sample_config (run_of ''101'' ''failure'') failure
                          (tick_of (run_of ''101'' ''failure'')))))"
    by (simp add: posts_sendAlert truthy_def sample_config_def)
  have m2: "(''https://hooks.example/ci'',
       WebhookBody (webhookBody sample_config (run_of ''102'' ''success'') recovery
                      ''2024-05-01T10:00:00.000Z''))
     \<in> set (posts (snd (sendAlert sample_config (run_of ''102'' ''success'') recovery
                          (tick_of (run_of ''102'' ''success'')))))"
    by (simp add: posts_sendAlert truthy_def sample_config_def tick_of_def)
  show ?thesis
    using m1 m2 payload_formats [OF m1] payload_formats [OF m2]
    by (simp add: sample_config_def tick_of_def)
qed

subsection \<open>Configuration and fetch errors\<close>

text \<open>
  C7. With neither a generic webhook URL nor a Slack webhook URL, the action prints the
  configuration error and exits with code 1; nothing else happens, so no network call is
  made and the poll loop is never entered.
\<close>

theorem no_sinks_exits_before_network:
  assumes "\<not> truthy (opt_webhook opts)" and "\<not> truthy (opt_slack opts)"
  shows "fst (action opts env0 ticks) = Exited 1
         \<and> filter is_network (snd (action opts env0 ticks)) = []
         \<and> snd (action opts env0 ticks) =
             [ConsoleError
                ''Error: Please specify at least one webhook URL (--webhook or --slack)'']"
  using assms by (simp add: action_def mkConfig_def)

theorem no_sinks_exits_before_network_witness:
  "\<not> truthy (opt_webhook no_sinks) \<and> \<not> truthy (opt_slack no_sinks)
   \<and> fst (action no_sinks (tick_of (run_of ''100'' ''success'')) [failed_tick]) = Exited 1
   \<and> filter is_network (snd (action no_sinks (tick_of (run_of ''100'' ''success''))
                               [failed_tick])) = []"
proof -
  have h1: "\<not> truthy (opt_webhook no_sinks)" by (simp add: truthy_def no_sinks_def)
  have h2: "\<not> truthy (opt_slack no_sinks)" by (simp add: truthy_def no_sinks_def)
  show ?thesis
    using h1 h2
      no_sinks_exits_before_network [OF h1 h2, of "tick_of (run_of ''100'' ''success'')"
        "[failed_tick]"]
    by simp
qed

text \<open>
  C8. When the fetch of a poll fails, \<open>checkPipeline\<close> logs the error and returns:
  \<open>lastRunId\<close> is as before, no delivery is attempted, the only effects are the request
  and the error line, and the loop goes on with the next firing from the same state.
\<close>

theorem failed_fetch_swallowed:
  assumes "platform config = ''github'' \<or> platform config = ''gitlab''"
    and "fetch_reply env = Failed e"
  shows "fst (checkPipeline config env lastRunId) = lastRunId
         \<and> posts (snd (checkPipeline config env lastRunId)) = []
         \<and> snd (checkPipeline config env lastRunId) =
             snd (fetch config (Failed e))
               @ [ConsoleError (''Error checking pipeline: '' @ error_message e)]
         \<and> polls config (env # envs) lastRunId =
             (fst (polls config envs lastRunId),
              snd (checkPipeline config env lastRunId) @ snd (polls config envs lastRunId))"
proof -
  obtain t where f: "fetch config (fetch_reply env) = (Inl e, t)"
    using assms by (auto simp: fetch_def)
  have p: "posts t = []"
    using posts_fetch [of config "fetch_reply env"] f by simp
  show ?thesis
    using f p assms(2)
    by (simp add: polls_Cons checkPipeline_failed [OF f] posts_append del: polls.simps)
qed

theorem failed_fetch_swallowed_witness:
  "(platform sample_config = ''github'' \<or> platform sample_config = ''gitlab'')
   \<and> fetch_reply failed_tick = Failed (Error ''Request failed with status code 401'')
   \<and> fst (checkPipeline sample_config failed_tick (Some ''100'')) = Some ''100''
   \<and> posts (snd (checkPipeline sample_config failed_tick (Some ''100''))) = []
   \<and> snd (checkPipeline sample_config failed_tick (Some ''100'')) =
       [github_request sample_config,
        ConsoleError ''Error checking pipeline: Request failed with status code 401'']"
proof -
  have h1: "platform sample_config = ''github'' \<or> platform sample_config = ''gitlab''"
    by (simp add: sample_config_def)
  have h2: "fetch_reply failed_tick = Failed (Error ''Request failed with status code 401'')"
    by (simp add: failed_tick_def)
  have f: "fetch sample_config (Failed (Error ''Request failed with status code 401''))
             = (Inl (Error ''Request failed with status code 401''),
                [github_request sample_config])"
    by (simp add: fetch_def sample_config_def)
  show ?thesis
    using h1 h2 failed_fetch_swallowed [OF h1 h2, of "Some ''100''" "[]"]
    by (simp add: f error_message_def github_request_def)
qed

subsection \<open>The lifetime of \<open>lastRunId\<close>\<close>

text \<open>
  C10. \<open>checkPipeline\<close> assigns \<open>lastRunId\<close> only while it is unset (the code tests
  \<open>!lastRunId\<close>: null, or the empty string). Once it holds an id, no sequence of polls
  changes it. So from the start of the process, the id of the first run observed (a
  non-empty string, as \<open>String\<close> of a numeric id is) stays in \<open>lastRunId\<close> through all
  later polls, each of which compares its run's id with that first one.
\<close>

theorem lastRunId_assigned_once:
  "(fst (checkPipeline config env lastRunId) \<noteq> lastRunId \<longrightarrow> \<not> truthy lastRunId)
   \<and> (truthy lastRunId \<longrightarrow> fst (polls config envs lastRunId) = lastRunId)
   \<and> (fetch config (fetch_reply env) = (Inr (Some r), t) \<and> run_id r \<noteq> [] \<longrightarrow>
        fst (polls config (env # envs) None) = Some (run_id r))"
proof (intro conjI impI)
  assume "fst (checkPipeline config env lastRunId) \<noteq> lastRunId"
  then show "\<not> truthy lastRunId"
    using checkPipeline_state [of lastRunId config env] by blast
next
  assume "truthy lastRunId"
  then show "fst (polls config envs lastRunId) = lastRunId"
    by (rule polls_state)
next
  assume a: "fetch config (fetch_reply env) = (Inr (Some r), t) \<and> run_id r \<noteq> []"
  then have "fst (checkPipeline config env None) = Some (run_id r)"
    by (simp add: checkPipeline_observed truthy_def)
  moreover have "truthy (Some (run_id r))"
    using a by (simp add: truthy_def)
  ultimately show "fst (polls config (env # envs) None) = Some (run_id r)"
    by (simp add: polls_Cons polls_state del: polls.simps)
qed

theorem lastRunId_assigned_once_witness:
  "fst (checkPipeline sample_config (tick_of (run_of ''100'' ''success'')) None) \<noteq> None
   \<and> \<not> truthy None
   \<and> truthy (Some ''100'')
   \<and> fst (polls sample_config
            [tick_of (run_of ''101'' ''failure''), tick_of (run_of ''102'' ''success'')]
            (Some ''100'')) = Some ''100''
   \<and> fetch sample_config (fetch_reply (tick_of (run_of ''100'' ''success'')))
       = (Inr (Some (run_of ''100'' ''success'')), [github_request sample_config])
   \<and> run_id (run_of ''100'' ''success'') \<noteq> []
   \<and> fst (polls sample_config
            [tick_of (run_of ''100'' ''success''), tick_of (run_of ''101'' ''failure''),
             tick_of (run_of ''102'' ''success'')] None) = Some ''100''"
proof -
  have h: "fetch sample_config (fetch_reply (tick_of (run_of ''100'' ''success'')))
             = (Inr (Some (run_of ''100'' ''success'')), [github_request sample_config])"
    by (rule fetch_sample)
  have c: "fst (checkPipeline sample_config (tick_of (run_of ''100'' ''success'')) None) \<noteq> None"
    by (simp add: checkPipeline_observed [OF h] truthy_def)
  have i: "run_id (run_of ''100'' ''success'') \<noteq> []" by (simp add: run_of_def)
  have tr: "truthy (Some ''100'')" by (simp add: truthy_def)
  show ?thesis
    using h c i tr
      lastRunId_assigned_once [of sample_config "tick_of (run_of ''100'' ''success'')" None
        "[tick_of (run_of ''101'' ''failure''), tick_of (run_of ''102'' ''success'')]"
        "run_of ''100'' ''success''" "[github_request sample_config]"]
      lastRunId_assigned_once [of sample_config "tick_of (run_of ''100'' ''success'')"
        "Some ''100''"
        "[tick_of (run_of ''101'' ''failure''), tick_of (run_of ''102'' ''success'')]"
        "run_of ''100'' ''success''" "[github_request sample_config]"]
    by (simp add: run_of_def truthy_def del: polls.simps)
qed

end
